theory Spec2Isabelle
  imports Main
begin

section \<open>Go strings and the library functions the plugins call\<close>

text \<open>
  A Go string is a sequence of bytes, so it is a \<^typ>\<open>string\<close> here (a list of 8-bit
  characters) and \<open>length\<close> is Go's \<open>len\<close>.  The functions of this section are the
  functions of the Go standard library (packages \<open>strings\<close>, \<open>path\<close>, \<open>fmt\<close>) that the
  plugins call; each follows the library's documented behaviour.
\<close>

definition strings_HasPrefix :: "string \<Rightarrow> string \<Rightarrow> bool" where
  "strings_HasPrefix s prefix =
     (length prefix \<le> length s \<and> take (length prefix) s = prefix)"

definition strings_HasSuffix :: "string \<Rightarrow> string \<Rightarrow> bool" where
  "strings_HasSuffix s suffix =
     (length suffix \<le> length s \<and> drop (length s - length suffix) s = suffix)"

definition strings_TrimSuffix :: "string \<Rightarrow> string \<Rightarrow> string" where
  "strings_TrimSuffix s suffix =
     (if strings_HasSuffix s suffix then take (length s - length suffix) s else s)"

text \<open>\<open>fmt.Sprintf("%d", n)\<close> for a length \<open>n\<close>: the decimal digits of a natural number.\<close>

definition digit :: "nat \<Rightarrow> char" where
  "digit d = ''0123456789'' ! d"

function itoa :: "nat \<Rightarrow> string" where
  "itoa n = (if n < 10 then [digit n] else itoa (n div 10) @ [digit (n mod 10)])"
  by pat_completeness auto
termination
  by (relation "measure id") auto

declare itoa.simps [simp del]

text \<open>
  \<open>strings.TrimSpace\<close> removes leading and trailing white space as Unicode defines it.
  The string is UTF-8: the white-space code points are the six ASCII characters
  \<open>\t \n \v \f \r\<close> and space, U+0085 and U+00A0 (two bytes each), and U+1680,
  U+2000 to U+200A, U+2028, U+2029, U+202F, U+205F and U+3000 (three bytes each).
\<close>

definition byte :: "char \<Rightarrow> nat" where
  "byte c = of_char c"

definition asciiSpace :: "char \<Rightarrow> bool" where
  "asciiSpace c = (byte c \<in> {0x09, 0x0A, 0x0B, 0x0C, 0x0D, 0x20})"

definition space2 :: "char \<Rightarrow> char \<Rightarrow> bool" where
  "space2 b0 b1 = (byte b0 = 0xC2 \<and> byte b1 \<in> {0x85, 0xA0})"

definition space3 :: "char \<Rightarrow> char \<Rightarrow> char \<Rightarrow> bool" where
  "space3 b0 b1 b2 =
     (byte b0 = 0xE1 \<and> byte b1 = 0x9A \<and> byte b2 = 0x80 \<or>
      byte b0 = 0xE2 \<and> byte b1 = 0x80 \<and>
        (0x80 \<le> byte b2 \<and> byte b2 \<le> 0x8A \<or> byte b2 \<in> {0xA8, 0xA9, 0xAF}) \<or>
      byte b0 = 0xE2 \<and> byte b1 = 0x81 \<and> byte b2 = 0x9F \<or>
      byte b0 = 0xE3 \<and> byte b1 = 0x80 \<and> byte b2 = 0x80)"

fun TrimLeftSpace :: "string \<Rightarrow> string" where
  "TrimLeftSpace (b0 # b1 # b2 # rest) =
     (if asciiSpace b0 then TrimLeftSpace (b1 # b2 # rest)
      else if space2 b0 b1 then TrimLeftSpace (b2 # rest)
      else if space3 b0 b1 b2 then TrimLeftSpace rest
      else b0 # b1 # b2 # rest)"
| "TrimLeftSpace [b0, b1] =
     (if asciiSpace b0 then TrimLeftSpace [b1]
      else if space2 b0 b1 then []
      else [b0, b1])"
| "TrimLeftSpace [b0] = (if asciiSpace b0 then [] else [b0])"
| "TrimLeftSpace [] = []"

text \<open>Trimming on the right, on the reversed string: \<open>b2\<close> is the last byte.\<close>

fun TrimRightSpace_rev :: "string \<Rightarrow> string" where
  "TrimRightSpace_rev (b2 # b1 # b0 # rest) =
     (if asciiSpace b2 then TrimRightSpace_rev (b1 # b0 # rest)
      else if space2 b1 b2 then TrimRightSpace_rev (b0 # rest)
      else if space3 b0 b1 b2 then TrimRightSpace_rev rest
      else b2 # b1 # b0 # rest)"
| "TrimRightSpace_rev [b1, b0] =
     (if asciiSpace b1 then TrimRightSpace_rev [b0]
      else if space2 b0 b1 then []
      else [b1, b0])"
| "TrimRightSpace_rev [b0] = (if asciiSpace b0 then [] else [b0])"
| "TrimRightSpace_rev [] = []"

definition strings_TrimSpace :: "string \<Rightarrow> string" where
  "strings_TrimSpace s = rev (TrimRightSpace_rev (rev (TrimLeftSpace s)))"

text \<open>
  \<open>path.Base\<close>: the last element of the path, after trailing slashes are removed; \<open>.\<close> for
  the empty path and \<open>/\<close> for a path of slashes only.
\<close>

definition path_Base :: "string \<Rightarrow> string" where
  "path_Base path =
     (if path = [] then ''.''
      else
        (let stripped = rev (dropWhile (\<lambda>c. c = CHR ''/'') (rev path));
             last_elem = rev (takeWhile (\<lambda>c. c \<noteq> CHR ''/'') (rev stripped))
         in if last_elem = [] then ''/'' else last_elem))"

text \<open>
  \<open>path.Clean\<close> and \<open>path.Dir\<close>.  \<open>Clean\<close> drops empty and \<open>.\<close> elements, lets \<open>..\<close> remove
  the element before it (a rooted path drops a \<open>..\<close> at the root, a relative path keeps
  leading \<open>..\<close> elements), and returns \<open>.\<close> for an empty result.  \<open>Dir\<close> cleans the path
  up to and including its last slash.
\<close>

fun split_slash :: "string \<Rightarrow> string list" where
  "split_slash [] = [[]]"
| "split_slash (c # cs) =
     (if c = CHR ''/'' then [] # split_slash cs
      else (case split_slash cs of [] \<Rightarrow> [[c]] | w # ws \<Rightarrow> (c # w) # ws))"

fun clean_step :: "bool \<Rightarrow> string list \<Rightarrow> string \<Rightarrow> string list" where
  "clean_step rooted out elem =
     (if elem = [] \<or> elem = ''.'' then out
      else if elem = ''..'' then
        (if out \<noteq> [] \<and> last out \<noteq> ''..'' then butlast out
         else if rooted then out
         else out @ [''..''])
      else out @ [elem])"

fun join_slash :: "string list \<Rightarrow> string" where
  "join_slash [] = []"
| "join_slash [e] = e"
| "join_slash (e # es) = e @ ''/'' @ join_slash es"

definition path_Clean :: "string \<Rightarrow> string" where
  "path_Clean path =
     (if path = [] then ''.''
      else
        (let rooted = (hd path = CHR ''/'');
             out = foldl (clean_step rooted) [] (split_slash path);
             cleaned = (if rooted then ''/'' else []) @ join_slash out
         in if cleaned = [] then ''.'' else cleaned))"

definition path_Dir :: "string \<Rightarrow> string" where
  "path_Dir path = path_Clean (rev (dropWhile (\<lambda>c. c \<noteq> CHR ''/'') (rev path)))"

section \<open>Dynamic values\<close>

text \<open>
  The values of Go's \<open>interface{}\<close> that a decoded message or a template literal can hold:
  the nil interface, a \<open>bool\<close>, an integral number, a \<open>string\<close>, a \<open>[]interface{}\<close> and a
  \<open>map[string]interface{}\<close>.  A map is given by the list of its entries (the keys of a Go
  map are distinct).
\<close>

datatype val =
    VNil
  | VBool bool
  | VInt int
  | VStr string
  | VList "val list"
  | VDict "(string \<times> val) list"

type_synonym dict = "(string \<times> val) list"

subsection \<open>\<open>json.MarshalIndent\<close> on dynamic values\<close>

text \<open>
  \<open>encoding/json\<close> writes a string between double quotes.  With HTML escaping on (the
  default of \<open>json.Marshal\<close>) the double quote and the backslash get a backslash before
  them; the control characters and \<open>&\<close>, \<open><\<close>, \<open>>\<close> are escaped (\<open>\n\<close>, \<open>\r\<close>, \<open>\t\<close>, \<open>\b\<close>
  and \<open>\f\<close> by their short forms as of Go 1.22, the others as \<open>\u00XX\<close>; the plugins need
  Go 1.24 for \<open>go:wasmexport\<close>); a byte that starts no valid UTF-8 sequence is replaced by
  the escape \<open>\ufffd\<close>; U+2028 and U+2029 are escaped; every other byte is copied.
\<close>

definition hex :: "nat \<Rightarrow> char" where
  "hex d = ''0123456789abcdef'' ! d"

definition htmlSafe :: "char \<Rightarrow> bool" where
  \<open>htmlSafe b = (0x20 \<le> byte b \<and> byte b < 0x80 \<and> b \<notin> set ''"&<>'' \<and> byte b \<noteq> 0x5C)\<close>

definition escape_ascii :: "char \<Rightarrow> string" where
  \<open>escape_ascii b =
     (if htmlSafe b then [b]
      else if byte b = 0x5C \<or> b = CHR ''"'' then [CHR 0x5C, b]
      else if byte b = 0x08 then [CHR 0x5C, CHR ''b'']
      else if byte b = 0x0C then [CHR 0x5C, CHR ''f'']
      else if byte b = 0x0A then [CHR 0x5C, CHR ''n'']
      else if byte b = 0x0D then [CHR 0x5C, CHR ''r'']
      else if byte b = 0x09 then [CHR 0x5C, CHR ''t'']
      else [CHR 0x5C, CHR ''u'', CHR ''0'', CHR ''0'', hex (byte b div 16), hex (byte b mod 16)])\<close>

definition between :: "string \<Rightarrow> nat \<Rightarrow> nat \<Rightarrow> nat \<Rightarrow> bool" where
  "between s i lo hi = (i < length s \<and> lo \<le> byte (s ! i) \<and> byte (s ! i) \<le> hi)"

text \<open>The number of bytes of the valid UTF-8 sequence at the head of \<open>s\<close>; 0 if there is none.\<close>

definition rune_size :: "string \<Rightarrow> nat" where
  "rune_size s =
     (if between s 0 0xC2 0xDF then (if between s 1 0x80 0xBF then 2 else 0)
      else if between s 0 0xE0 0xEF then
        (if between s 1 (if between s 0 0xE0 0xE0 then 0xA0 else 0x80)
                        (if between s 0 0xED 0xED then 0x9F else 0xBF) \<and>
            between s 2 0x80 0xBF
         then 3 else 0)
      else if between s 0 0xF0 0xF4 then
        (if between s 1 (if between s 0 0xF0 0xF0 then 0x90 else 0x80)
                        (if between s 0 0xF4 0xF4 then 0x8F else 0xBF) \<and>
            between s 2 0x80 0xBF \<and> between s 3 0x80 0xBF
         then 4 else 0)
      else 0)"

fun quote_bytes :: "string \<Rightarrow> string" where
  "quote_bytes [] = []"
| "quote_bytes (b # rest) =
     (if byte b < 0x80 then escape_ascii b @ quote_bytes rest
      else if rune_size (b # rest) = 0 then
        [CHR 0x5C] @ ''ufffd'' @ quote_bytes rest
      else if take 3 (b # rest) = [CHR 0xE2, CHR 0x80, CHR 0xA8] then
        [CHR 0x5C] @ ''u2028'' @ quote_bytes (drop 2 rest)
      else if take 3 (b # rest) = [CHR 0xE2, CHR 0x80, CHR 0xA9] then
        [CHR 0x5C] @ ''u2029'' @ quote_bytes (drop 2 rest)
      else take (rune_size (b # rest)) (b # rest) @
           quote_bytes (drop (rune_size (b # rest) - 1) rest))"

definition json_quote :: "string \<Rightarrow> string" where
  \<open>json_quote s = ''"'' @ quote_bytes s @ ''"''\<close>

text \<open>The entries of a map are written in the order of their keys, compared bytewise.\<close>

fun bytes_le :: "string \<Rightarrow> string \<Rightarrow> bool" where
  "bytes_le [] t = True"
| "bytes_le (x # xs) [] = False"
| "bytes_le (x # xs) (y # ys) = (byte x < byte y \<or> (x = y \<and> bytes_le xs ys))"

fun insert_entry :: "string \<times> 'a \<Rightarrow> (string \<times> 'a) list \<Rightarrow> (string \<times> 'a) list" where
  "insert_entry e [] = [e]"
| "insert_entry e (x # xs) =
     (if bytes_le (fst e) (fst x) then e # x # xs else x # insert_entry e xs)"

definition sort_entries :: "(string \<times> 'a) list \<Rightarrow> (string \<times> 'a) list" where
  "sort_entries es = foldr insert_entry es []"

definition indent_by :: "nat \<Rightarrow> string" where
  "indent_by depth = concat (replicate depth ''  '')"

fun join_lines :: "nat \<Rightarrow> string list \<Rightarrow> string" where
  "join_lines depth [] = []"
| "join_lines depth [e] = e"
| "join_lines depth (e # es) = e @ '',\<newline>'' @ indent_by depth @ join_lines depth es"

definition itoa_int :: "int \<Rightarrow> string" where
  "itoa_int i = (if i < 0 then ''-'' @ itoa (nat (- i)) else itoa (nat i))"

text \<open>
  \<open>json.MarshalIndent(v, "", "  ")\<close>: every element of a non-empty array or object stands
  on a line of its own, indented by two spaces for each level of nesting; an empty array
  is \<open>[]\<close> and an empty object \<open>{}\<close>.  On the values of \<^typ>\<open>val\<close> it never fails.
\<close>

fun encode_indent :: "nat \<Rightarrow> val \<Rightarrow> string" where
  "encode_indent depth VNil = ''null''"
| "encode_indent depth (VBool b) = (if b then ''true'' else ''false'')"
| "encode_indent depth (VInt i) = itoa_int i"
| "encode_indent depth (VStr s) = json_quote s"
| "encode_indent depth (VList vs) =
     (if vs = [] then ''[]''
      else ''[\<newline>'' @ indent_by (Suc depth) @
           join_lines (Suc depth) (map (encode_indent (Suc depth)) vs) @
           ''\<newline>'' @ indent_by depth @ '']'')"
| "encode_indent depth (VDict kvs) =
     (if kvs = [] then ''{}''
      else ''{\<newline>'' @ indent_by (Suc depth) @
           join_lines (Suc depth)
             (map (\<lambda>kv. json_quote (fst kv) @ '': '' @ snd kv)
               (sort_entries (map (\<lambda>kv. (fst kv, encode_indent (Suc depth) (snd kv))) kvs))) @
           ''\<newline>'' @ indent_by depth @ ''}'')"

definition json_MarshalIndent :: "val \<Rightarrow> string + string" where
  "json_MarshalIndent v = Inr (encode_indent 0 v)"

section \<open>The render/v1 messages\<close>

record SourceFile =
  Name :: string
  Data :: string

text \<open>
  The three plugins declare the input message with the same fields; they differ in the
  types of \<open>release\<close>, \<open>chart\<close> and \<open>capabilities\<close> (structs in \<open>gotemplate-render\<close>,
  \<open>map[string]interface{}\<close> in the others), which are the type parameters here.
\<close>

record ('rel, 'chart, 'caps) InputMessageRenderV1 =
  Release :: 'rel
  Values :: "(string \<times> val) list"
  Chart :: 'chart
  Subcharts :: "(string \<times> val) list"
  Files :: "SourceFile list"
  Capabilities :: 'caps
  SourceFiles :: "SourceFile list"

record OutputMessageRenderV1 =
  RenderedFiles :: "string \<rightharpoonup> string"
  ModifiedSourceFiles :: "SourceFile list"
  Errors :: "string list"

text \<open>
  The output message on the wire.  The struct tags of \<open>OutputMessageRenderV1\<close> mark
  \<open>modifiedSourceFiles\<close> and \<open>errors\<close> as \<open>omitempty\<close>: \<open>json.Marshal\<close> leaves such a field
  out of the object when the slice is nil or empty, and a field that is left out is
  \<open>None\<close> here.  \<open>json.Marshal\<close> cannot fail on this struct (strings, byte slices and a
  map from strings to strings), so the branch of the source that handles its error is
  dead and \<open>json_Marshal\<close> is a total function.
\<close>

record OutputJSON =
  renderedFiles :: "string \<rightharpoonup> string"
  modifiedSourceFiles :: "SourceFile list option"
  errors :: "string list option"

definition omitempty :: "'a list \<Rightarrow> 'a list option" where
  "omitempty xs = (if xs = [] then None else Some xs)"

definition json_Marshal :: "OutputMessageRenderV1 \<Rightarrow> OutputJSON" where
  "json_Marshal output =
     \<lparr>renderedFiles = RenderedFiles output,
      modifiedSourceFiles = omitempty (ModifiedSourceFiles output),
      errors = omitempty (Errors output)\<rparr>"

text \<open>
  \<open>outputError\<close> (the same function in \<open>gotemplate-render\<close> and \<open>sourcefiles-modifier\<close>):
  the status returned to the host and the message handed to \<open>pdk.Output\<close>.
\<close>

definition outputError :: "string \<Rightarrow> nat \<times> OutputJSON" where
  "outputError msg =
     (1, json_Marshal \<lparr>RenderedFiles = Map.empty, ModifiedSourceFiles = [], Errors = [msg]\<rparr>)"

section \<open>The plugin \<open>gotemplate-render\<close>\<close>

subsection \<open>Message and template data\<close>

record ReleaseInfo =
  rel_Name :: string
  rel_Namespace :: string
  rel_Revision :: int
  rel_IsInstall :: bool
  rel_IsUpgrade :: bool
  rel_Service :: string

record ChartInfo =
  chart_Name :: string
  chart_Version :: string
  chart_AppVersion :: string
  chart_Description :: string
  chart_Type :: string
  chart_IsRoot :: bool

record CapabilitiesInfo =
  KubeVersion :: dict
  APIVersions :: "string list"
  HelmVersion :: string

type_synonym gotemplate_input = "(ReleaseInfo, ChartInfo, CapabilitiesInfo) InputMessageRenderV1"

record TemplateInfo =
  tmpl_Name :: string
  BasePath :: string

text \<open>\<open>TemplateData\<close>, the dot of a template; \<open>dot_Files\<close> is the map inside \<open>Files\<close>.\<close>

record TemplateData =
  dot_Release :: ReleaseInfo
  dot_Values :: dict
  dot_Chart :: ChartInfo
  dot_Subcharts :: dict
  dot_Files :: "string \<rightharpoonup> string"
  dot_Capabilities :: CapabilitiesInfo
  dot_Template :: TemplateInfo

subsection \<open>Functions of \<open>funcMap\<close>\<close>

text \<open>
  The entries of \<open>funcMap\<close> that the properties below are about, under the prefix \<open>fn_\<close>.
  In \<open>default\<close> the comparison \<open>val == ""\<close> of an \<open>interface{}\<close> with a string constant holds
  only for a value of type \<open>string\<close> that is empty.  \<open>include\<close> and \<open>tpl\<close> return an error
  whatever their arguments are; \<open>toYaml\<close> and \<open>toPrettyJson\<close> have the same body.
\<close>

definition fn_default :: "val \<Rightarrow> val \<Rightarrow> val" where
  "fn_default def val = (if val = VNil \<or> val = VStr [] then def else val)"

definition fn_include :: "string \<Rightarrow> 'd \<Rightarrow> string + string" where
  "fn_include name data = Inl ''include not fully implemented in plugin''"

definition fn_tpl :: "string \<Rightarrow> 'd \<Rightarrow> string + string" where
  "fn_tpl tpl data = Inl ''tpl not fully implemented in plugin''"

definition fn_toYaml :: "val \<Rightarrow> string" where
  "fn_toYaml v = (case json_MarshalIndent v of Inl err \<Rightarrow> [] | Inr data \<Rightarrow> data)"

definition fn_toPrettyJson :: "val \<Rightarrow> string" where
  "fn_toPrettyJson v = (case json_MarshalIndent v of Inl err \<Rightarrow> [] | Inr data \<Rightarrow> data)"

subsection \<open>The template engine\<close>

text \<open>
  The plugin drives Go's \<open>text/template\<close>, which is not part of the repository.  The
  model follows the documented behaviour of the calls the plugin makes (\<open>New\<close>, \<open>Parse\<close>,
  \<open>Clone\<close>, \<open>Execute\<close>) on templates built from literal text, the action
  \<open>{{template "name" .}}\<close> and calls of the functions \<open>include\<close> and \<open>tpl\<close> of \<open>funcMap\<close>
  (\<open>{{include "name" .}}\<close>, \<open>{{tpl "text" .}}\<close>).  A call returns a value or an error, as
  its Go signature says.

  The lexer and parser of the library are a parameter \<open>parse\<close> of the model:
  \<open>parse name text\<close> is the result of \<open>parse.Parse\<close>, an error or the set of trees of the
  text, a map from names to trees that holds the top-level tree under \<open>name\<close> and the body
  of every \<open>{{define}}\<close> under its own name.
\<close>

datatype node =
    TextNode string
  | TemplateNode string
  | IncludeNode string
  | TplNode string

type_synonym tree = "node list"

type_synonym namespace = "string \<rightharpoonup> tree"

type_synonym parser = "string \<Rightarrow> string \<Rightarrow> string + (string \<rightharpoonup> tree)"

text \<open>
  \<open>parse.IsEmptyTree\<close>: a tree is empty when it holds nothing but white-space text.
\<close>

fun IsEmptyTree :: "tree \<Rightarrow> bool" where
  "IsEmptyTree [] = True"
| "IsEmptyTree (TextNode text # rest) = (strings_TrimSpace text = [] \<and> IsEmptyTree rest)"
| "IsEmptyTree (n # rest) = False"

text \<open>
  \<open>AddParseTree\<close> with \<open>associate\<close>: the tree becomes the definition of \<open>name\<close>, except that
  an empty tree does not replace a definition that exists (``a template definition with
  a body containing only white space and comments is considered empty and will not
  replace an existing template's body'').
\<close>

definition AddParseTree :: "namespace \<Rightarrow> string \<Rightarrow> tree \<Rightarrow> namespace" where
  "AddParseTree tmpl name tree =
     (if tmpl name \<noteq> None \<and> IsEmptyTree tree then tmpl else tmpl(name \<mapsto> tree))"

text \<open>
  The loop of \<open>Parse\<close> over the set of trees: every tree of the set is added by
  \<open>AddParseTree\<close>.  The names of the set are distinct, so the order of Go's loop over the
  map does not matter and the result is given name by name.
\<close>

definition AddParseTrees :: "namespace \<Rightarrow> (string \<rightharpoonup> tree) \<Rightarrow> namespace" where
  "AddParseTrees tmpl trees =
     (\<lambda>name. case trees name of
                None \<Rightarrow> tmpl name
              | Some tree \<Rightarrow> AddParseTree tmpl name tree name)"

text \<open>
  \<open>t.New(name).Parse(text)\<close>: on a parse error nothing is added.  The second component
  is the tree of the template that \<open>Parse\<close> returns, the top-level tree of the text.
\<close>

definition New_Parse ::
  "parser \<Rightarrow> namespace \<Rightarrow> string \<Rightarrow> string \<Rightarrow> string + (namespace \<times> tree option)"
where
  "New_Parse parse tmpl name text =
     (case parse name text of
        Inl err \<Rightarrow> Inl err
      | Inr trees \<Rightarrow> Inr (AddParseTrees tmpl trees, trees name))"

text \<open>
  \<open>Clone\<close> copies the name space: what is parsed into the copy is not added to the
  original.  In \<open>text/template\<close> it returns no error.  The root template \<open>gotpl\<close> is never
  parsed itself; the model takes it that no fragment is defined under the root's own
  name, an entry that \<open>Clone\<close> treats on its own.
\<close>

definition Clone :: "namespace \<Rightarrow> string + namespace" where
  "Clone tmpl = Inr tmpl"

text \<open>
  Execution.  \<open>levels\<close> is the number of nested template invocations still allowed: the
  library stops at depth \<open>maxExecDepth\<close>, which is 1000 on WebAssembly (the Makefile
  builds with \<open>GOARCH=wasm\<close>).  The texts of the library's errors are given without their
  position prefix.
\<close>

definition maxExecDepth :: nat where
  "maxExecDepth = 1000"

fun exec :: "nat \<Rightarrow> namespace \<Rightarrow> 'd \<Rightarrow> tree \<Rightarrow> string + string" where
  "exec levels tmpl dot [] = Inr []"
| "exec levels tmpl dot (TextNode text # rest) =
     (case exec levels tmpl dot rest of
        Inl err \<Rightarrow> Inl err
      | Inr out \<Rightarrow> Inr (text @ out))"
| \<open>exec levels tmpl dot (TemplateNode name # rest) =
     (case tmpl name of
        None \<Rightarrow> Inl (''template "'' @ name @ ''" not defined'')
      | Some body \<Rightarrow>
          (if levels = 0 then Inl ''exceeded maximum template depth''
           else
             (case exec (levels - 1) tmpl dot body of
                Inl err \<Rightarrow> Inl err
              | Inr out \<Rightarrow>
                  (case exec levels tmpl dot rest of
                     Inl err \<Rightarrow> Inl err
                   | Inr out' \<Rightarrow> Inr (out @ out')))))\<close>
| "exec levels tmpl dot (IncludeNode name # rest) =
     (case fn_include name dot of
        Inl err \<Rightarrow> Inl (''error calling include: '' @ err)
      | Inr text \<Rightarrow>
          (case exec levels tmpl dot rest of
             Inl err \<Rightarrow> Inl err
           | Inr out \<Rightarrow> Inr (text @ out)))"
| "exec levels tmpl dot (TplNode raw # rest) =
     (case fn_tpl raw dot of
        Inl err \<Rightarrow> Inl (''error calling tpl: '' @ err)
      | Inr text \<Rightarrow>
          (case exec levels tmpl dot rest of
             Inl err \<Rightarrow> Inl err
           | Inr out \<Rightarrow> Inr (text @ out)))"

definition Execute :: "namespace \<Rightarrow> string \<Rightarrow> tree option \<Rightarrow> 'd \<Rightarrow> string + string" where
  \<open>Execute tmpl name root dot =
     (case root of
        None \<Rightarrow> Inl (''"'' @ name @ ''" is an incomplete or empty template'')
      | Some tree \<Rightarrow> exec maxExecDepth tmpl dot tree)\<close>

subsection \<open>\<open>HelmPluginMain\<close>\<close>

definition new_output :: OutputMessageRenderV1 where
  "new_output = \<lparr>RenderedFiles = Map.empty, ModifiedSourceFiles = [], Errors = []\<rparr>"

definition is_partial :: "SourceFile \<Rightarrow> bool" where
  "is_partial file = strings_HasPrefix (path_Base (Name file)) ''_''"

definition is_template_file :: "SourceFile \<Rightarrow> bool" where
  "is_template_file file =
     (strings_HasSuffix (Name file) ''.yaml'' \<or> strings_HasSuffix (Name file) ''.yml'' \<or>
      strings_HasSuffix (Name file) ''.tpl'' \<or> strings_HasSuffix (Name file) ''.txt'')"

text \<open>The map of \<open>input.Files\<close> for the templates: a later file of the same name wins.\<close>

definition filesMap :: "SourceFile list \<Rightarrow> (string \<rightharpoonup> string)" where
  "filesMap fs = foldl (\<lambda>m f. m(Name f \<mapsto> Data f)) Map.empty fs"

text \<open>
  First pass: every partial (a file whose base name starts with \<open>_\<close>) is parsed into the
  master template; a parse error is recorded and the loop goes on.
\<close>

fun first_pass ::
  "parser \<Rightarrow> SourceFile list \<Rightarrow> namespace \<times> OutputMessageRenderV1 \<Rightarrow>
     namespace \<times> OutputMessageRenderV1"
where
  "first_pass parse [] st = st"
| "first_pass parse (file # rest) (masterTmpl, output) =
     first_pass parse rest
       (if is_partial file then
          (case New_Parse parse masterTmpl (Name file) (Data file) of
             Inl err \<Rightarrow>
               (masterTmpl,
                output\<lparr>Errors := Errors output @ [''parse error in '' @ Name file @ '': '' @ err]\<rparr>)
           | Inr (tmpl, root) \<Rightarrow> (tmpl, output))
        else (masterTmpl, output))"

text \<open>
  The body of the second loop for one primary file: build the template data, clone the
  master template, parse the file into the clone and execute it.  The result is the
  rendered text or the entry for \<open>output.Errors\<close>.
\<close>

definition template_data :: "gotemplate_input \<Rightarrow> SourceFile \<Rightarrow> TemplateData" where
  "template_data input file =
     \<lparr>dot_Release = Release input,
      dot_Values = Values input,
      dot_Chart = Chart input,
      dot_Subcharts = Subcharts input,
      dot_Files = filesMap (Files input),
      dot_Capabilities = Capabilities input,
      dot_Template = \<lparr>tmpl_Name = Name file, BasePath = path_Dir (Name file)\<rparr>\<rparr>"

definition render_file ::
  "parser \<Rightarrow> namespace \<Rightarrow> gotemplate_input \<Rightarrow> SourceFile \<Rightarrow> string + string"
where
  "render_file parse masterTmpl input file =
     (let data = template_data input file
      in case Clone masterTmpl of
           Inl err \<Rightarrow> Inl (''clone error for '' @ Name file @ '': '' @ err)
         | Inr tmpl \<Rightarrow>
             (case New_Parse parse tmpl (Name file) (Data file) of
                Inl err \<Rightarrow> Inl (''parse error in '' @ Name file @ '': '' @ err)
              | Inr (tmpl', root) \<Rightarrow>
                  (case Execute tmpl' (Name file) root data of
                     Inl err \<Rightarrow> Inl (''render error in '' @ Name file @ '': '' @ err)
                   | Inr rendered \<Rightarrow> Inr rendered)))"

text \<open>
  Second pass: partials and files without a template extension are skipped; a failure
  of a primary file is recorded and the file is skipped; output that is all white space
  is skipped; otherwise the output is stored under the file's name.
\<close>

fun second_pass ::
  "parser \<Rightarrow> namespace \<Rightarrow> gotemplate_input \<Rightarrow> SourceFile list \<Rightarrow>
     OutputMessageRenderV1 \<Rightarrow> OutputMessageRenderV1"
where
  "second_pass parse masterTmpl input [] output = output"
| "second_pass parse masterTmpl input (file # rest) output =
     second_pass parse masterTmpl input rest
       (if is_partial file then output
        else if \<not> is_template_file file then output
        else
          (case render_file parse masterTmpl input file of
             Inl msg \<Rightarrow> output\<lparr>Errors := Errors output @ [msg]\<rparr>
           | Inr rendered \<Rightarrow>
               (if strings_TrimSpace rendered = [] then output
                else output\<lparr>RenderedFiles := (RenderedFiles output)(Name file \<mapsto> rendered)\<rparr>)))"

definition HelmPluginMain ::
  "parser \<Rightarrow> (string \<Rightarrow> string + gotemplate_input) \<Rightarrow> string \<Rightarrow> nat \<times> OutputJSON"
where
  "HelmPluginMain parse json_Unmarshal inputBytes =
     (case json_Unmarshal inputBytes of
        Inl err \<Rightarrow> outputError (''failed to parse input: '' @ err)
      | Inr input \<Rightarrow>
          (case first_pass parse (SourceFiles input) (Map.empty, new_output) of
             (masterTmpl, output) \<Rightarrow>
               (0, json_Marshal
                     (second_pass parse masterTmpl input (SourceFiles input) output))))"

text \<open>
  Two notions for the statements below: the master template as the first pass leaves it,
  and the primary files, those the second pass renders.
\<close>

definition master_of :: "parser \<Rightarrow> SourceFile list \<Rightarrow> namespace" where
  "master_of parse files = fst (first_pass parse files (Map.empty, new_output))"

definition is_primary :: "SourceFile \<Rightarrow> bool" where
  "is_primary file = (\<not> is_partial file \<and> is_template_file file)"

text \<open>
  A file \<open>emits\<close> when the second pass reaches the assignment
  \<open>output.RenderedFiles[file.Name] = rendered\<close> for it: it is a primary file, it parses and
  executes, and its output is not all white space.
\<close>

definition emits :: "parser \<Rightarrow> namespace \<Rightarrow> gotemplate_input \<Rightarrow> SourceFile \<Rightarrow> bool" where
  "emits parse masterTmpl input file =
     (is_primary file \<and>
      (\<exists>rendered. render_file parse masterTmpl input file = Inr rendered \<and>
                  strings_TrimSpace rendered \<noteq> []))"

section \<open>The plugin \<open>sourcefiles-modifier\<close>\<close>

type_synonym modifier_input = "(dict, dict, dict) InputMessageRenderV1"

text \<open>
  The loop of \<open>HelmPluginMain\<close> over \<open>input.SourceFiles\<close>: \<open>i\<close> is the index of the file at
  the head of the list, the state is \<open>output.ModifiedSourceFiles\<close> and \<open>actions\<close>.
\<close>

fun process_files ::
  "nat \<Rightarrow> SourceFile list \<Rightarrow> SourceFile list \<times> string list \<Rightarrow> SourceFile list \<times> string list"
where
  "process_files i [] st = st"
| "process_files i (file # rest) (modified, actions) =
     process_files (Suc i) rest
       (if i = 0 then
          (modified, actions @ [''REMOVED: '' @ Name file])
        else if i = 1 then
          (modified @ [\<lparr>Name = Name file, Data = ''[MODIFIED BY PLUGIN 1]\<newline>'' @ Data file\<rparr>],
           actions @ [''MODIFIED: '' @ Name file])
        else if i = 2 then
          (let newName = strings_TrimSuffix (Name file) ''.test'' @ ''.renamed'' in
           (modified @ [\<lparr>Name = newName, Data = Data file\<rparr>],
            actions @ [''RENAMED: '' @ Name file @ '' -> '' @ newName]))
        else
          (modified @ [file], actions @ [''PASSED: '' @ Name file]))"

definition formatActions :: "string list \<Rightarrow> string" where
  "formatActions actions = concat (map (\<lambda>action. ''    - '' @ action @ ''\<newline>'') actions)"

definition newFile :: SourceFile where
  "newFile =
     \<lparr>Name = ''templates/file4.test'',
      Data = ''# This file was added by sourcefiles-modifier plugin\<newline>key: added-by-plugin-1''\<rparr>"

definition summaryContent :: "string list \<Rightarrow> nat \<Rightarrow> nat \<Rightarrow> string" where
  \<open>summaryContent actions received output =
     ''# SourceFiles Modifier Plugin Summary\<newline>'' @
     ''# This manifest documents the modifications made to source files\<newline>'' @
     ''apiVersion: v1\<newline>kind: ConfigMap\<newline>metadata:\<newline>'' @
     ''  name: sourcefiles-modifier-summary\<newline>data:\<newline>  actions: |\<newline>'' @
     formatActions actions @ ''\<newline>  filesReceived: "'' @ itoa received @
     ''"\<newline>  filesOutput: "'' @ itoa output @ ''"\<newline>''\<close>

definition modifier_HelmPluginMain ::
  "(string \<Rightarrow> string + modifier_input) \<Rightarrow> string \<Rightarrow> nat \<times> OutputJSON"
where
  "modifier_HelmPluginMain json_Unmarshal inputBytes =
     (case json_Unmarshal inputBytes of
        Inl err \<Rightarrow> outputError (''failed to parse input: '' @ err)
      | Inr input \<Rightarrow>
          (case process_files 0 (SourceFiles input) ([], []) of
             (modified, actions) \<Rightarrow>
               (let modified' = modified @ [newFile];
                    actions' = actions @ [''ADDED: '' @ Name newFile];
                    summary = summaryContent actions' (length (SourceFiles input)) (length modified')
                in (0, json_Marshal
                     \<lparr>RenderedFiles = [''sourcefiles-modifier-summary.yaml'' \<mapsto> summary],
                      ModifiedSourceFiles = modified',
                      Errors = []\<rparr>))))"

section \<open>The plugin \<open>echo-render\<close>\<close>

text \<open>
  The plugin has its own message structs: the input has the fields \<open>release\<close>, \<open>values\<close>,
  \<open>chart\<close> and \<open>sourceFiles\<close> only (the record fields carry the prefix \<open>in_\<close>), and the
  output has no \<open>modifiedSourceFiles\<close>.
\<close>

record InputMessage =
  in_release :: dict
  in_values :: dict
  in_chart :: dict
  in_sourceFiles :: "SourceFile list"

record OutputMessage =
  echo_RenderedFiles :: "string \<rightharpoonup> string"
  echo_Errors :: "string list"

definition echo_Marshal :: "OutputMessage \<Rightarrow> OutputJSON" where
  "echo_Marshal output =
     \<lparr>renderedFiles = echo_RenderedFiles output,
      modifiedSourceFiles = None,
      errors = omitempty (echo_Errors output)\<rparr>"

text \<open>
  An invocation either returns a status, having handed one message to \<open>pdk.Output\<close>, or it
  traps: a Go run-time panic ends the WebAssembly call before any output is written.
\<close>

datatype 'a invocation = Trap | Returns 'a

text \<open>
  The slice expression \<open>s[:hi]\<close>: Go panics (slice bounds out of range) unless
  \<open>0 \<le> hi \<le> len(s)\<close>.  The bound is a signed \<open>int\<close>, so \<open>len(s) - 5\<close> is negative for a
  short string.
\<close>

definition slice_to :: "string \<Rightarrow> int \<Rightarrow> string option" where
  "slice_to s hi = (if 0 \<le> hi \<and> hi \<le> int (length s) then Some (take (nat hi) s) else None)"

text \<open>The loop over \<open>input.SourceFiles\<close>; \<open>None\<close> is the panic of the slice expression.\<close>

fun echo_files :: "string \<Rightarrow> SourceFile list \<Rightarrow> (string \<rightharpoonup> string) \<Rightarrow> (string \<rightharpoonup> string) option"
where
  "echo_files releaseName [] rendered = Some rendered"
| "echo_files releaseName (sf # rest) rendered =
     (case slice_to (Name sf) (int (length (Name sf)) - 5) of
        None \<Rightarrow> None
      | Some stem \<Rightarrow>
          (let outName = stem @ ''.yaml'';
               content = ''# Rendered by echo-render plugin\<newline>'' @
                         ''# Release: '' @ releaseName @ ''\<newline>'' @ Data sf
           in echo_files releaseName rest (rendered(outName \<mapsto> content))))"

definition setError :: "string \<Rightarrow> OutputJSON" where
  "setError msg = echo_Marshal \<lparr>echo_RenderedFiles = Map.empty, echo_Errors = [msg]\<rparr>"

definition echo_HelmPluginMain ::
  "(string \<Rightarrow> string + InputMessage) \<Rightarrow> string \<Rightarrow> (nat \<times> OutputJSON) invocation"
where
  "echo_HelmPluginMain json_Unmarshal inputData =
     (if length inputData = 0 then Returns (1, setError ''no input provided'')
      else
        (case json_Unmarshal inputData of
           Inl err \<Rightarrow> Returns (1, setError (''failed to parse input: '' @ err))
         | Inr input \<Rightarrow>
             (let releaseName =
                    (case map_of (in_release input) ''name'' of
                       Some (VStr name) \<Rightarrow> name
                     | _ \<Rightarrow> ''unknown'')
              in case echo_files releaseName (in_sourceFiles input) Map.empty of
                   None \<Rightarrow> Trap
                 | Some rendered \<Rightarrow>
                     Returns (0, echo_Marshal
                       \<lparr>echo_RenderedFiles = rendered, echo_Errors = []\<rparr>))))"

section \<open>Example inputs\<close>

text \<open>
  The closed examples below run the plugins on concrete input bytes.  The host encodes a
  message as JSON; the \<open>[]byte\<close> of a source file travels as base64.  \<open>wire_file\<close> is the
  JSON object of a source file whose name needs no escape.
\<close>

definition b64 :: "nat \<Rightarrow> char" where
  "b64 d = ''ABCDEFGHIJKLMNOPQRSTUVWXYZabcdefghijklmnopqrstuvwxyz0123456789+/'' ! d"

fun base64 :: "string \<Rightarrow> string" where
  "base64 (b0 # b1 # b2 # rest) =
     [b64 (byte b0 div 4),
      b64 (byte b0 mod 4 * 16 + byte b1 div 16),
      b64 (byte b1 mod 16 * 4 + byte b2 div 64),
      b64 (byte b2 mod 64)] @ base64 rest"
| "base64 [b0, b1] =
     [b64 (byte b0 div 4),
      b64 (byte b0 mod 4 * 16 + byte b1 div 16),
      b64 (byte b1 mod 16 * 4),
      CHR ''='']"
| "base64 [b0] = [b64 (byte b0 div 4), b64 (byte b0 mod 4 * 16), CHR ''='', CHR ''='']"
| "base64 [] = []"

definition wire_file :: "SourceFile \<Rightarrow> string" where
  \<open>wire_file f = ''{"name":"'' @ Name f @ ''","data":"'' @ base64 (Data f) @ ''"}''\<close>

fun join_comma :: "string list \<Rightarrow> string" where
  "join_comma [] = []"
| "join_comma [e] = e"
| "join_comma (e # es) = e @ '','' @ join_comma es"

subsection \<open>Inputs of \<open>gotemplate-render\<close>\<close>

text \<open>
  \<open>parse_examples\<close> is what \<open>parse.Parse\<close> returns on the template texts of the examples:
  a text without \<open>{{\<close> is one text node (no node when it is empty); a text that is one
  \<open>{{define "X"}}\<close> block has an empty top-level tree and the body under \<open>X\<close>; the text
  around an action is kept as text nodes, white space included; an unclosed action is a
  parse error.  It covers no other text.
\<close>

fun has_action :: "string \<Rightarrow> bool" where
  "has_action (a # b # rest) = (a = CHR ''{'' \<and> b = CHR ''{'' \<or> has_action (b # rest))"
| "has_action rest = False"

definition parse_examples :: parser where
  \<open>parse_examples name text =
     (if \<not> has_action text then Inr [name \<mapsto> (if text = [] then [] else [TextNode text])]
      else if text = ''{{define "X"}}A{{end}}'' then Inr [name \<mapsto> [], ''X'' \<mapsto> [TextNode ''A'']]
      else if text = ''{{define "X"}}B{{end}}'' then Inr [name \<mapsto> [], ''X'' \<mapsto> [TextNode ''B'']]
      else if text = ''{{define "X"}}{{end}}'' then Inr [name \<mapsto> [], ''X'' \<mapsto> []]
      else if text = ''{{template "X" .}}'' then Inr [name \<mapsto> [TemplateNode ''X'']]
      else if text = ''{{include "X" .}}'' then Inr [name \<mapsto> [IncludeNode ''X'']]
      else if text = ''data: {{template "X" .}}\<newline>'' then
        Inr [name \<mapsto> [TextNode ''data: '', TemplateNode ''X'', TextNode ''\<newline>'']]
      else if text = ''{{'' then Inl ''unclosed action''
      else Inl ''not one of the example templates'')\<close>

definition partial_a :: SourceFile where
  \<open>partial_a = \<lparr>Name = ''templates/_a.tpl'', Data = ''{{define "X"}}A{{end}}''\<rparr>\<close>

definition partial_b :: SourceFile where
  \<open>partial_b = \<lparr>Name = ''templates/_b.tpl'', Data = ''{{define "X"}}B{{end}}''\<rparr>\<close>

definition partial_b_empty :: SourceFile where
  \<open>partial_b_empty = \<lparr>Name = ''templates/_b.tpl'', Data = ''{{define "X"}}{{end}}''\<rparr>\<close>

definition primary_p :: SourceFile where
  \<open>primary_p = \<lparr>Name = ''templates/p.yaml'', Data = ''{{template "X" .}}''\<rparr>\<close>

definition primary_around :: SourceFile where
  \<open>primary_around =
     \<lparr>Name = ''templates/w.yaml'', Data = ''data: {{template "X" .}}\<newline>''\<rparr>\<close>

definition primary_include :: SourceFile where
  \<open>primary_include = \<lparr>Name = ''templates/q.yaml'', Data = ''{{include "X" .}}''\<rparr>\<close>

definition primary_unclosed :: SourceFile where
  \<open>primary_unclosed = \<lparr>Name = ''templates/bad.yaml'', Data = ''{{''\<rparr>\<close>

definition primary_blank :: SourceFile where
  \<open>primary_blank = \<lparr>Name = ''templates/a.yaml'', Data = '' \<newline>  ''\<rparr>\<close>

definition primary_text :: SourceFile where
  \<open>primary_text = \<lparr>Name = ''templates/a.yaml'', Data = ''kind: ConfigMap''\<rparr>\<close>

text \<open>The example message with the given source files, and its JSON text.\<close>

definition example_input :: "SourceFile list \<Rightarrow> gotemplate_input" where
  "example_input files =
     \<lparr>Release = \<lparr>rel_Name = ''demo'', rel_Namespace = ''default'', rel_Revision = 1,
                  rel_IsInstall = True, rel_IsUpgrade = False, rel_Service = ''Helm''\<rparr>,
      Values = [],
      Chart = \<lparr>chart_Name = ''chart'', chart_Version = ''0.1.0'', chart_AppVersion = [],
                chart_Description = [], chart_Type = [], chart_IsRoot = True\<rparr>,
      Subcharts = [],
      Files = [],
      Capabilities = \<lparr>KubeVersion = [], APIVersions = [], HelmVersion = ''v4''\<rparr>,
      SourceFiles = files\<rparr>"

definition envelope :: "SourceFile list \<Rightarrow> string" where
  \<open>envelope files =
     ''{"release":{"name":"demo","namespace":"default","revision":1,"isInstall":true,'' @
     ''"isUpgrade":false,"service":"Helm"},"values":{},"chart":{"name":"chart",'' @
     ''"version":"0.1.0","isRoot":true},"subcharts":{},"files":[],"capabilities":'' @
     ''{"kubeVersion":{},"apiVersions":[],"helmVersion":"v4"},"sourceFiles":['' @
     join_comma (map wire_file files) @ '']}''\<close>

text \<open>
  \<open>decode_examples\<close> is \<open>json.Unmarshal\<close> on the inputs of the examples: the envelope of
  one of the lists of source files below decodes to the message with these files; on
  bytes that break off in the middle of an envelope the decoder reports the unexpected
  end.  It covers no other input.
\<close>

definition example_file_lists :: "SourceFile list list" where
  "example_file_lists =
     [[partial_a, partial_b, primary_p],
      [partial_a, partial_b_empty, primary_p],
      [primary_blank],
      [primary_blank, primary_text],
      [partial_a, primary_unclosed, primary_p],
      [partial_a, primary_p],
      [partial_a, primary_include],
      [partial_a, partial_b, primary_around]]"

definition decode_examples :: "string \<Rightarrow> string + gotemplate_input" where
  "decode_examples bytes =
     (case find (\<lambda>files. envelope files = bytes) example_file_lists of
        Some files \<Rightarrow> Inr (example_input files)
      | None \<Rightarrow> Inl ''unexpected end of JSON input'')"

subsection \<open>Inputs of \<open>sourcefiles-modifier\<close> and \<open>echo-render\<close>\<close>

definition modifier_example :: modifier_input where
  "modifier_example =
     \<lparr>Release = [], Values = [], Chart = [], Subcharts = [], Files = [], Capabilities = [],
      SourceFiles =
        [\<lparr>Name = ''templates/file1.test'', Data = ''a: 1''\<rparr>,
         \<lparr>Name = ''templates/file2.test'', Data = ''b: 2''\<rparr>,
         \<lparr>Name = ''templates/file3.test'', Data = ''c: 3''\<rparr>]\<rparr>"

definition modifier_envelope :: string where
  \<open>modifier_envelope =
     ''{"release":{},"values":{},"chart":{},"subcharts":{},"files":[],"capabilities":{},'' @
     ''"sourceFiles":['' @ join_comma (map wire_file (SourceFiles modifier_example)) @ '']}''\<close>

definition modifier_decode :: "string \<Rightarrow> string + modifier_input" where
  "modifier_decode bytes =
     (if bytes = modifier_envelope then Inr modifier_example
      else Inl ''unexpected end of JSON input'')"

definition echo_example :: InputMessage where
  "echo_example =
     \<lparr>in_release = [(''name'', VStr ''demo'')], in_values = [], in_chart = [],
      in_sourceFiles = [\<lparr>Name = ''a.e'', Data = ''x''\<rparr>]\<rparr>"

definition echo_envelope :: string where
  \<open>echo_envelope =
     ''{"release":{"name":"demo"},"values":{},"chart":{},"sourceFiles":['' @
     join_comma (map wire_file (in_sourceFiles echo_example)) @ '']}''\<close>

definition echo_decode :: "string \<Rightarrow> string + InputMessage" where
  "echo_decode bytes =
     (if bytes = echo_envelope then Inr echo_example
      else Inl ''unexpected end of JSON input'')"

lemmas example_files = partial_a_def partial_b_def partial_b_empty_def primary_p_def
  primary_unclosed_def primary_blank_def primary_text_def primary_include_def
  primary_around_def

lemmas decode_example = decode_examples_def example_file_lists_def envelope_def
  wire_file_def b64_def byte_def modifier_decode_def modifier_envelope_def
  modifier_example_def echo_decode_def echo_envelope_def echo_example_def

section \<open>Properties of \<open>sourcefiles-modifier\<close>\<close>

lemma strings_HasSuffix_append:
  "strings_HasSuffix s suffix \<Longrightarrow> s = strings_TrimSuffix s suffix @ suffix"
  unfolding strings_HasSuffix_def strings_TrimSuffix_def
  by (metis append_take_drop_id)

text \<open>
  Claim C5 (sequential handoff).  When the input decodes to a message whose source files
  are \<open>[A, B, C]\<close> and the name of \<open>C\<close> ends in \<open>.test\<close>, the plugin returns status 0 and the
  modified source files are exactly three, in this order: \<open>B\<close> under its own name with
  the marker line put before its content, \<open>C\<close> with the same bytes and \<open>.test\<close> replaced by
  \<open>.renamed\<close>, and the new file \<open>templates/file4.test\<close>.  \<open>A\<close> is gone.
\<close>

theorem modifier_sequential_handoff:
  assumes "json_Unmarshal inputBytes = Inr input"
    and "SourceFiles input = [A, B, C]"
    and "strings_HasSuffix (Name C) ''.test''"
  shows "\<exists>stem.
           Name C = stem @ ''.test'' \<and>
           fst (modifier_HelmPluginMain json_Unmarshal inputBytes) = 0 \<and>
           modifiedSourceFiles (snd (modifier_HelmPluginMain json_Unmarshal inputBytes)) =
             Some [\<lparr>Name = Name B, Data = ''[MODIFIED BY PLUGIN 1]\<newline>'' @ Data B\<rparr>,
                   \<lparr>Name = stem @ ''.renamed'', Data = Data C\<rparr>,
                   \<lparr>Name = ''templates/file4.test'',
                    Data = ''# This file was added by sourcefiles-modifier plugin\<newline>key: added-by-plugin-1''\<rparr>]"
proof -
  let ?stem = "strings_TrimSuffix (Name C) ''.test''"
  have name: "Name C = ?stem @ ''.test''"
    using assms(3) by (rule strings_HasSuffix_append)
  have run: "fst (modifier_HelmPluginMain json_Unmarshal inputBytes) = 0 \<and>
      modifiedSourceFiles (snd (modifier_HelmPluginMain json_Unmarshal inputBytes)) =
             Some [\<lparr>Name = Name B, Data = ''[MODIFIED BY PLUGIN 1]\<newline>'' @ Data B\<rparr>,
                   \<lparr>Name = ?stem @ ''.renamed'', Data = Data C\<rparr>,
                   \<lparr>Name = ''templates/file4.test'',
                    Data = ''# This file was added by sourcefiles-modifier plugin\<newline>key: added-by-plugin-1''\<rparr>]"
    by (simp add: modifier_HelmPluginMain_def assms(1,2) Let_def json_Marshal_def
        omitempty_def newFile_def)
  from name run show ?thesis
    by blast
qed


theorem modifier_sequential_handoff_witness:
  "fst (modifier_HelmPluginMain modifier_decode modifier_envelope) = 0 \<and>
   modifiedSourceFiles (snd (modifier_HelmPluginMain modifier_decode modifier_envelope)) =
     Some [\<lparr>Name = ''templates/file2.test'', Data = ''[MODIFIED BY PLUGIN 1]\<newline>b: 2''\<rparr>,
           \<lparr>Name = ''templates/file3.renamed'', Data = ''c: 3''\<rparr>,
           \<lparr>Name = ''templates/file4.test'',
            Data = ''# This file was added by sourcefiles-modifier plugin\<newline>key: added-by-plugin-1''\<rparr>]"
proof -
  have suffix: "strings_HasSuffix ''templates/file3.test'' ''.test''"
    by (simp add: strings_HasSuffix_def)
  have decode: "modifier_decode modifier_envelope = Inr modifier_example"
    by (simp add: modifier_decode_def)
  show ?thesis
    using modifier_sequential_handoff
      [of modifier_decode modifier_envelope modifier_example
          "\<lparr>Name = ''templates/file1.test'', Data = ''a: 1''\<rparr>"
          "\<lparr>Name = ''templates/file2.test'', Data = ''b: 2''\<rparr>"
          "\<lparr>Name = ''templates/file3.test'', Data = ''c: 3''\<rparr>"]
      suffix decode
    by (auto simp: modifier_example_def)
qed

section \<open>Properties of \<open>echo-render\<close>\<close>

lemma slice_to_None: "slice_to s (int (length s) - 5) = None \<longleftrightarrow> length s < 5"
  by (auto simp: slice_to_def)

lemma echo_files_None:
  "echo_files releaseName files rendered = None \<longleftrightarrow> (\<exists>sf \<in> set files. length (Name sf) < 5)"
proof (induction files arbitrary: rendered)
  case Nil
  then show ?case by simp
next
  case (Cons sf rest)
  show ?case
  proof (cases "slice_to (Name sf) (int (length (Name sf)) - 5)")
    case None
    then show ?thesis
      using slice_to_None [of "Name sf"] by simp
  next
    case (Some stem)
    then have "\<not> length (Name sf) < 5"
      using slice_to_None [of "Name sf"] by simp
    then show ?thesis
      using Some Cons.IH by (simp add: Let_def)
  qed
qed

text \<open>
  Claim C9 (the slice in \<open>echo-render\<close>).  For a non-empty input that decodes to a
  message, the invocation traps exactly when some source file has a name shorter than
  five bytes (the bound \<open>len(sf.Name) - 5\<close> of the slice is then negative); when every
  name has at least five bytes it returns status 0 with an output message.
\<close>

theorem echo_short_name_traps:
  assumes "inputData \<noteq> []"
    and "json_Unmarshal inputData = Inr input"
  shows "if \<exists>sf \<in> set (in_sourceFiles input). length (Name sf) < 5
         then echo_HelmPluginMain json_Unmarshal inputData = Trap
         else \<exists>out. echo_HelmPluginMain json_Unmarshal inputData = Returns (0, out)"
proof -
  define releaseName where
    "releaseName = (case map_of (in_release input) ''name'' of
                      Some (VStr name) \<Rightarrow> name
                    | _ \<Rightarrow> ''unknown'')"
  have run: "echo_HelmPluginMain json_Unmarshal inputData =
      (case echo_files releaseName (in_sourceFiles input) Map.empty of
         None \<Rightarrow> Trap
       | Some rendered \<Rightarrow>
           Returns (0, echo_Marshal \<lparr>echo_RenderedFiles = rendered, echo_Errors = []\<rparr>))"
    using assms by (simp add: echo_HelmPluginMain_def Let_def releaseName_def)
  show ?thesis
  proof (cases "echo_files releaseName (in_sourceFiles input) Map.empty")
    case None
    then have "\<exists>sf \<in> set (in_sourceFiles input). length (Name sf) < 5"
      by (simp add: echo_files_None)
    then show ?thesis
      using None run by simp
  next
    case (Some rendered)
    then have "\<not> (\<exists>sf \<in> set (in_sourceFiles input). length (Name sf) < 5)"
      using echo_files_None [of releaseName "in_sourceFiles input" Map.empty] by simp
    then show ?thesis
      using Some run by simp
  qed
qed

theorem echo_short_name_traps_witness:
  "echo_HelmPluginMain echo_decode echo_envelope = Trap"
proof -
  have "echo_envelope \<noteq> []" and "echo_decode echo_envelope = Inr echo_example"
    by (simp_all add: echo_decode_def echo_envelope_def)
  then show ?thesis
    using echo_short_name_traps [of echo_envelope echo_decode echo_example]
    by (simp add: echo_example_def)
qed

section \<open>Properties of \<open>gotemplate-render\<close>\<close>

subsection \<open>The function map\<close>

text \<open>
  Claim C6 (\<open>default\<close>), as amended.  \<open>default(def, val)\<close> returns \<open>def\<close> when \<open>val\<close> is nil or
  the empty string and \<open>val\<close> otherwise.  So \<open>default("", "fallback")\<close> is \<open>"fallback"\<close>, and
  a numeric zero in the place of the value is not empty: \<open>default("fallback", 0)\<close> is 0.
\<close>

theorem default_contract:
  "fn_default (VStr []) (VStr ''fallback'') = VStr ''fallback'' \<and>
   fn_default (VStr ''fallback'') (VInt 0) = VInt 0 \<and>
   fn_default def val = (if val = VNil \<or> val = VStr [] then def else val)"
  by (simp add: fn_default_def)

text \<open>
  The claim as the spec words it puts the zero first, in the place of \<open>def\<close>; the value is
  then \<open>"fallback"\<close>, which is not empty, and it is returned.
\<close>

theorem default_zero_first_counterexample:
  "fn_default (VInt 0) (VStr ''fallback'') = VStr ''fallback'' \<and>
   fn_default (VInt 0) (VStr ''fallback'') \<noteq> VInt 0"
  by (simp add: fn_default_def)

text \<open>
  Claim C8 (\<open>toYaml\<close>) asks for YAML.  What the code does: \<open>toYaml\<close> returns the indented
  JSON text of its argument, the same text as \<open>toPrettyJson\<close>; a map with one entry comes
  out between braces with its key in double quotes (YAML block style would be \<open>a: 1\<close>).
\<close>

theorem toYaml_is_indented_json:
  \<open>fn_toYaml v = fn_toPrettyJson v \<and>
   fn_toYaml (VDict [(''a'', VInt 1)]) = ''{\<newline>  "a": 1\<newline>}''\<close>
  by (simp add: fn_toYaml_def fn_toPrettyJson_def json_MarshalIndent_def json_quote_def
      escape_ascii_def htmlSafe_def byte_def sort_entries_def indent_by_def itoa_int_def
      itoa.simps digit_def)

subsection \<open>The two passes\<close>

lemma first_pass_append:
  "first_pass parse (xs @ ys) st = first_pass parse ys (first_pass parse xs st)"
  by (induction parse xs st rule: first_pass.induct) simp_all

lemma first_pass_skip:
  "\<not> is_partial f \<Longrightarrow> first_pass parse (f # rest) st = first_pass parse rest st"
  by (cases st) simp

lemma first_pass_without:
  assumes "\<not> is_partial f"
  shows "first_pass parse (before @ [f] @ after) st = first_pass parse (before @ after) st"
  using assms by (simp add: first_pass_append first_pass_skip)

lemma first_pass_fields:
  "RenderedFiles (snd (first_pass parse files (m, out))) = RenderedFiles out \<and>
   ModifiedSourceFiles (snd (first_pass parse files (m, out))) = ModifiedSourceFiles out"
  by (induction files arbitrary: m out) (auto split: sum.splits)

lemma second_pass_append:
  "second_pass parse m i (xs @ ys) out = second_pass parse m i ys (second_pass parse m i xs out)"
  by (induction xs arbitrary: out) simp_all

lemma template_data_SourceFiles [simp]:
  "template_data (input\<lparr>SourceFiles := files\<rparr>) f = template_data input f"
  by (simp add: template_data_def)

lemma render_file_SourceFiles [simp]:
  "render_file parse m (input\<lparr>SourceFiles := files\<rparr>) f = render_file parse m input f"
  by (simp add: render_file_def)

lemma second_pass_SourceFiles [simp]:
  "second_pass parse m (input\<lparr>SourceFiles := files\<rparr>) fs out = second_pass parse m input fs out"
  by (induction fs arbitrary: out) simp_all

lemma second_pass_Modified:
  "ModifiedSourceFiles (second_pass parse m i files out) = ModifiedSourceFiles out"
  by (induction files arbitrary: out) (auto split: sum.splits)

text \<open>
  What the second pass adds does not depend on the output it starts from: the errors are
  appended, and the rendered files are laid over the ones already there.
\<close>

lemma second_pass_Errors:
  "Errors (second_pass parse m i files out) =
     Errors out @ Errors (second_pass parse m i files new_output)"
proof (induction files arbitrary: out)
  case Nil
  show ?case by (simp add: new_output_def)
next
  case (Cons f rest)
  show ?case
    by (subst (1 2) second_pass.simps, subst (1 2) Cons.IH)
       (simp add: new_output_def split: sum.splits)
qed

lemma second_pass_Rendered:
  "RenderedFiles (second_pass parse m i files out) =
     RenderedFiles out ++ RenderedFiles (second_pass parse m i files new_output)"
proof (induction files arbitrary: out)
  case Nil
  show ?case by (simp add: new_output_def)
next
  case (Cons f rest)
  show ?case
    by (subst (1 2) second_pass.simps, subst (1 2) Cons.IH)
       (simp add: new_output_def split: sum.splits)
qed

lemma second_pass_dom:
  "dom (RenderedFiles (second_pass parse m i files out)) =
     dom (RenderedFiles out) \<union> {Name f | f. f \<in> set files \<and> emits parse m i f}"
proof (induction files arbitrary: out)
  case Nil
  show ?case by simp
next
  case (Cons f rest)
  show ?case
    by (subst second_pass.simps, subst Cons.IH)
       (auto simp: emits_def is_primary_def split: sum.splits)
qed

lemmas run_example = HelmPluginMain_def master_of_def example_input_def new_output_def
  is_partial_def is_template_file_def is_primary_def path_Base_def strings_HasPrefix_def
  strings_HasSuffix_def New_Parse_def AddParseTrees_def AddParseTree_def parse_examples_def
  render_file_def Clone_def Execute_def maxExecDepth_def json_Marshal_def omitempty_def
  strings_TrimSpace_def asciiSpace_def space2_def space3_def byte_def fn_include_def

subsection \<open>Calls of \<open>include\<close> and \<open>tpl\<close>\<close>

text \<open>
  Claim C7 (\<open>include\<close> and \<open>tpl\<close>) asks for functions that render the named fragment or
  the given text.  What the code does: both functions return an error for every name,
  text and data, so a primary file that calls \<open>include\<close> on a fragment that a partial
  defines is not rendered; its error is recorded.
\<close>

theorem include_and_tpl_are_stubs:
  "fn_include name data = Inl ''include not fully implemented in plugin'' \<and>
   fn_tpl raw data = Inl ''tpl not fully implemented in plugin'' \<and>
   HelmPluginMain parse_examples decode_examples (envelope [partial_a, primary_include]) =
     (0, \<lparr>renderedFiles = Map.empty, modifiedSourceFiles = None,
          errors = Some [''render error in templates/q.yaml: error calling include: include not fully implemented in plugin'']\<rparr>)"
  by (simp add: run_example example_files decode_example fn_tpl_def)

subsection \<open>The input envelope and the source files\<close>

text \<open>
  Claim C4 (malformed envelope).  When the input bytes do not decode, the invocation
  returns status 1 and a message with no rendered file, the one error of the decoder and
  no \<open>modifiedSourceFiles\<close> field.
\<close>

theorem decode_failure_is_fatal:
  assumes "json_Unmarshal inputBytes = Inl err"
  shows "HelmPluginMain parse json_Unmarshal inputBytes =
           (1, \<lparr>renderedFiles = Map.empty,
                modifiedSourceFiles = None,
                errors = Some [''failed to parse input: '' @ err]\<rparr>)"
  using assms by (simp add: HelmPluginMain_def outputError_def json_Marshal_def omitempty_def)

theorem decode_failure_is_fatal_witness:
  \<open>HelmPluginMain parse_examples decode_examples ''{"release":'' =
     (1, \<lparr>renderedFiles = Map.empty,
          modifiedSourceFiles = None,
          errors = Some [''failed to parse input: unexpected end of JSON input'']\<rparr>)\<close>
proof -
  have \<open>decode_examples ''{"release":'' = Inl ''unexpected end of JSON input''\<close>
    by (simp add: decode_example example_files)
  then show ?thesis
    using decode_failure_is_fatal
      [of decode_examples _ "''unexpected end of JSON input''" parse_examples]
    by simp
qed

text \<open>
  Claim C10 (no change of the source tree).  Whatever the input is, the output message of
  \<open>gotemplate-render\<close> has no \<open>modifiedSourceFiles\<close> field.
\<close>

theorem render_requests_no_source_change:
  "modifiedSourceFiles (snd (HelmPluginMain parse json_Unmarshal inputBytes)) = None"
proof (cases "json_Unmarshal inputBytes")
  case (Inl err)
  then show ?thesis
    by (simp add: HelmPluginMain_def outputError_def json_Marshal_def omitempty_def)
next
  case (Inr input)
  obtain m out where fp: "first_pass parse (SourceFiles input) (Map.empty, new_output) = (m, out)"
    by (cases "first_pass parse (SourceFiles input) (Map.empty, new_output)")
  have "ModifiedSourceFiles out = []"
    using first_pass_fields [of parse "SourceFiles input" Map.empty new_output] fp
    by (simp add: new_output_def)
  then show ?thesis
    using Inr fp
    by (simp add: HelmPluginMain_def json_Marshal_def omitempty_def second_pass_Modified)
qed

theorem render_requests_no_source_change_witness:
  "modifiedSourceFiles
     (snd (HelmPluginMain parse_examples decode_examples
        (envelope [partial_a, partial_b, primary_p]))) = None"
  by (rule render_requests_no_source_change)

subsection \<open>White-space output\<close>

text \<open>
  Claim C2 (white-space output), as amended.  The keys of \<open>renderedFiles\<close> are exactly the
  names of the files that emit, so a primary file whose output is all white space adds
  no key: its name is a key only when another source file of the same name emits.  In
  particular, when no file emits (every primary file renders to white space only) the
  mapping is empty.
\<close>

theorem blank_output_adds_no_key:
  assumes "json_Unmarshal inputBytes = Inr input"
  shows "dom (renderedFiles (snd (HelmPluginMain parse json_Unmarshal inputBytes))) =
           {Name f | f. f \<in> set (SourceFiles input) \<and>
              emits parse (master_of parse (SourceFiles input)) input f} \<and>
         ((\<forall>f \<in> set (SourceFiles input).
             \<not> emits parse (master_of parse (SourceFiles input)) input f) \<longrightarrow>
          renderedFiles (snd (HelmPluginMain parse json_Unmarshal inputBytes)) = Map.empty)"
proof -
  obtain m out where fp: "first_pass parse (SourceFiles input) (Map.empty, new_output) = (m, out)"
    by (cases "first_pass parse (SourceFiles input) (Map.empty, new_output)")
  have m: "master_of parse (SourceFiles input) = m"
    by (simp add: master_of_def fp)
  have "RenderedFiles out = Map.empty"
    using first_pass_fields [of parse "SourceFiles input" Map.empty new_output] fp
    by (simp add: new_output_def)
  then have keys: "dom (renderedFiles (snd (HelmPluginMain parse json_Unmarshal inputBytes))) =
      {Name f | f. f \<in> set (SourceFiles input) \<and> emits parse m input f}"
    using assms fp by (simp add: HelmPluginMain_def json_Marshal_def second_pass_dom)
  have "renderedFiles (snd (HelmPluginMain parse json_Unmarshal inputBytes)) = Map.empty"
    if "\<forall>f \<in> set (SourceFiles input). \<not> emits parse m input f"
  proof -
    from that keys
    have "dom (renderedFiles (snd (HelmPluginMain parse json_Unmarshal inputBytes))) = {}"
      by auto
    then show ?thesis by simp
  qed
  with keys show ?thesis
    by (simp add: m)
qed

theorem blank_output_adds_no_key_witness:
  "renderedFiles
     (snd (HelmPluginMain parse_examples decode_examples (envelope [primary_blank]))) =
   Map.empty"
proof -
  have "decode_examples (envelope [primary_blank]) = Inr (example_input [primary_blank])"
    by (simp add: decode_example example_files)
  moreover have "\<not> emits parse_examples (master_of parse_examples [primary_blank])
            (example_input [primary_blank]) primary_blank"
    by (simp add: emits_def run_example example_files)
  ultimately show ?thesis
    using blank_output_adds_no_key
      [of decode_examples "envelope [primary_blank]" "example_input [primary_blank]"
          parse_examples]
    by (simp add: example_input_def)
qed

text \<open>
  The claim as the spec words it fails when two source files share a name: the first
  file below renders to white space only, and its name is a key of \<open>renderedFiles\<close>
  because the second file of that name renders to text.
\<close>

theorem blank_file_name_is_key_counterexample:
  "is_primary primary_blank \<and>
   render_file parse_examples (master_of parse_examples [primary_blank, primary_text])
     (example_input [primary_blank, primary_text]) primary_blank = Inr '' \<newline>  '' \<and>
   strings_TrimSpace '' \<newline>  '' = [] \<and>
   renderedFiles
     (snd (HelmPluginMain parse_examples decode_examples
        (envelope [primary_blank, primary_text])))
     (Name primary_blank) = Some ''kind: ConfigMap''"
  by (simp add: run_example example_files decode_example)

subsection \<open>Failure of one primary file\<close>

text \<open>A primary file fails when its text does not parse or its execution returns an error.\<close>

lemma render_file_failure:
  "render_file parse m input f = Inl msg \<longleftrightarrow>
     (\<exists>err. parse (Name f) (Data f) = Inl err \<and>
            msg = ''parse error in '' @ Name f @ '': '' @ err) \<or>
     (\<exists>trees err. parse (Name f) (Data f) = Inr trees \<and>
            Execute (AddParseTrees m trees) (Name f) (trees (Name f)) (template_data input f) =
              Inl err \<and>
            msg = ''render error in '' @ Name f @ '': '' @ err)"
  by (auto simp: render_file_def Clone_def New_Parse_def Let_def split: sum.splits)

text \<open>
  Claim C3 (per-file failure isolation).  Let a primary file fail (its clone, parse or
  execution returns an error, which gives the message \<open>msg\<close>).  Then the invocation
  returns status 0 with the same rendered files as the invocation on the input without
  that file, and its errors are the errors of that invocation with the one entry \<open>msg\<close>
  put in.
\<close>

theorem failure_is_isolated:
  assumes dec: "json_Unmarshal inputBytes = Inr input"
    and dec': "json_Unmarshal inputBytes' = Inr (input\<lparr>SourceFiles := before @ after\<rparr>)"
    and files: "SourceFiles input = before @ [failing] @ after"
    and prim: "is_primary failing"
    and fail: "render_file parse (master_of parse (SourceFiles input)) input failing = Inl msg"
  shows "\<exists>rendered es1 es2.
           HelmPluginMain parse json_Unmarshal inputBytes' =
             (0, \<lparr>renderedFiles = rendered, modifiedSourceFiles = None,
                  errors = omitempty (es1 @ es2)\<rparr>) \<and>
           HelmPluginMain parse json_Unmarshal inputBytes =
             (0, \<lparr>renderedFiles = rendered, modifiedSourceFiles = None,
                  errors = Some (es1 @ [msg] @ es2)\<rparr>)"
proof -
  obtain m o1 where fp: "first_pass parse (before @ failing # after) (Map.empty, new_output) = (m, o1)"
    by (cases "first_pass parse (before @ failing # after) (Map.empty, new_output)")
  have np: "\<not> is_partial failing" "is_template_file failing"
    using prim by (simp_all add: is_primary_def)
  have fp': "first_pass parse (before @ after) (Map.empty, new_output) = (m, o1)"
    using first_pass_without [of failing parse before after] np(1) fp by simp
  have rf: "render_file parse m input failing = Inl msg"
    using fail by (simp add: master_of_def files fp)
  have mod1: "ModifiedSourceFiles o1 = []"
    using first_pass_fields [of parse "before @ failing # after" Map.empty new_output] fp
    by (simp add: new_output_def)
  define o2 where "o2 = second_pass parse m input before o1"
  define o3 where "o3 = o2\<lparr>Errors := Errors o2 @ [msg]\<rparr>"
  define tail where "tail = second_pass parse m input after new_output"
  have mod2: "ModifiedSourceFiles o2 = []"
    by (simp add: o2_def second_pass_Modified mod1)
  have without: "HelmPluginMain parse json_Unmarshal inputBytes' =
      (0, json_Marshal (second_pass parse m input after o2))"
    by (simp add: HelmPluginMain_def dec' fp' second_pass_append o2_def)
  have full: "HelmPluginMain parse json_Unmarshal inputBytes =
      (0, json_Marshal (second_pass parse m input after o3))"
    by (simp add: HelmPluginMain_def dec files fp second_pass_append o2_def o3_def np rf)
  have r2: "RenderedFiles (second_pass parse m input after o2) = RenderedFiles o2 ++ RenderedFiles tail"
    unfolding tail_def by (rule second_pass_Rendered)
  have r3: "RenderedFiles (second_pass parse m input after o3) = RenderedFiles o2 ++ RenderedFiles tail"
    unfolding tail_def by (subst second_pass_Rendered) (simp add: o3_def)
  have e2: "Errors (second_pass parse m input after o2) = Errors o2 @ Errors tail"
    unfolding tail_def by (rule second_pass_Errors)
  have e3: "Errors (second_pass parse m input after o3) = Errors o2 @ [msg] @ Errors tail"
    unfolding tail_def by (subst second_pass_Errors) (simp add: o3_def)
  have m2: "ModifiedSourceFiles (second_pass parse m input after o2) = []"
    by (simp add: second_pass_Modified mod2)
  have m3: "ModifiedSourceFiles (second_pass parse m input after o3) = []"
    by (simp add: second_pass_Modified mod2 o3_def)
  have "HelmPluginMain parse json_Unmarshal inputBytes' =
          (0, \<lparr>renderedFiles = RenderedFiles o2 ++ RenderedFiles tail, modifiedSourceFiles = None,
               errors = omitempty (Errors o2 @ Errors tail)\<rparr>)"
    by (simp add: without json_Marshal_def r2 e2 m2) (simp add: omitempty_def)
  moreover have "HelmPluginMain parse json_Unmarshal inputBytes =
          (0, \<lparr>renderedFiles = RenderedFiles o2 ++ RenderedFiles tail, modifiedSourceFiles = None,
               errors = Some (Errors o2 @ [msg] @ Errors tail)\<rparr>)"
    by (simp add: full json_Marshal_def r3 e3 m3 omitempty_def)
  ultimately show ?thesis
    by blast
qed

theorem failure_is_isolated_witness:
  "\<exists>rendered es1 es2.
     HelmPluginMain parse_examples decode_examples (envelope [partial_a, primary_p]) =
       (0, \<lparr>renderedFiles = rendered, modifiedSourceFiles = None,
            errors = omitempty (es1 @ es2)\<rparr>) \<and>
     HelmPluginMain parse_examples decode_examples
         (envelope [partial_a, primary_unclosed, primary_p]) =
       (0, \<lparr>renderedFiles = rendered, modifiedSourceFiles = None,
            errors = Some (es1 @ [''parse error in templates/bad.yaml: unclosed action''] @ es2)\<rparr>)"
proof -
  have decode: "decode_examples (envelope [partial_a, primary_unclosed, primary_p]) =
      Inr (example_input [partial_a, primary_unclosed, primary_p])"
    "decode_examples (envelope [partial_a, primary_p]) = Inr (example_input [partial_a, primary_p])"
    by (simp_all add: decode_example example_files)
  have prim: "is_primary primary_unclosed"
    by (simp add: run_example example_files)
  have fail: "render_file parse_examples
      (master_of parse_examples [partial_a, primary_unclosed, primary_p])
      (example_input [partial_a, primary_unclosed, primary_p]) primary_unclosed =
      Inl ''parse error in templates/bad.yaml: unclosed action''"
    by (simp add: run_example example_files)
  show ?thesis
    using failure_is_isolated
      [of decode_examples "envelope [partial_a, primary_unclosed, primary_p]"
          "example_input [partial_a, primary_unclosed, primary_p]"
          "envelope [partial_a, primary_p]"
          "[partial_a]" "[primary_p]" primary_unclosed parse_examples
          "''parse error in templates/bad.yaml: unclosed action''"]
      decode prim fail
    by (simp add: example_input_def)
qed

subsection \<open>Partials that define the same fragment\<close>

lemma first_pass_keeps_definition:
  assumes "m X = Some body"
    and "\<forall>g \<in> set files. is_partial g \<longrightarrow>
           (\<forall>tg t. parse (Name g) (Data g) = Inr tg \<longrightarrow> tg X = Some t \<longrightarrow> IsEmptyTree t)"
  shows "fst (first_pass parse files (m, out)) X = Some body"
  using assms
proof (induction files arbitrary: m out)
  case Nil
  then show ?case by simp
next
  case (Cons g rest)
  show ?case
  proof (cases "is_partial g")
    case False
    then show ?thesis
      using Cons by simp
  next
    case True
    show ?thesis
    proof (cases "parse (Name g) (Data g)")
      case (Inl err)
      then show ?thesis
        using True Cons by (simp add: New_Parse_def)
    next
      case (Inr tg)
      have "AddParseTrees m tg X = Some body"
        using Cons.prems True Inr
        by (auto simp: AddParseTrees_def AddParseTree_def split: option.splits)
      then show ?thesis
        using True Inr Cons by (simp add: New_Parse_def)
    qed
  qed
qed

lemma first_pass_defines:
  assumes "is_partial b" and "parse (Name b) (Data b) = Inr tb"
    and "tb X = Some body" and "\<not> IsEmptyTree body"
  shows "fst (first_pass parse [b] (m, out)) X = Some body"
  using assms by (simp add: New_Parse_def AddParseTrees_def AddParseTree_def)

lemma exec_append:
  "exec levels tmpl dot (xs @ ys) =
     (case exec levels tmpl dot xs of
        Inl err \<Rightarrow> Inl err
      | Inr out \<Rightarrow>
          (case exec levels tmpl dot ys of
             Inl err \<Rightarrow> Inl err
           | Inr out' \<Rightarrow> Inr (out @ out')))"
proof (induction xs)
  case Nil
  show ?case by (simp split: sum.splits)
next
  case (Cons n xs)
  show ?case
    by (cases n) (simp_all add: Cons.IH fn_include_def fn_tpl_def split: sum.splits option.splits)
qed

lemma second_pass_lookup:
  assumes "\<forall>g \<in> set files. Name g = Name p \<longrightarrow> g = p"
    and "p \<in> set files" and "is_primary p" and "RenderedFiles out (Name p) = None"
  shows "RenderedFiles (second_pass parse m i files out) (Name p) =
           (case render_file parse m i p of
              Inl msg \<Rightarrow> None
            | Inr rendered \<Rightarrow> if strings_TrimSpace rendered = [] then None else Some rendered)"
proof -
  have general: "RenderedFiles (second_pass parse m i fs out') (Name p) =
      (if p \<in> set fs then
         (case render_file parse m i p of
            Inl msg \<Rightarrow> RenderedFiles out' (Name p)
          | Inr rendered \<Rightarrow>
              if strings_TrimSpace rendered = [] then RenderedFiles out' (Name p)
              else Some rendered)
       else RenderedFiles out' (Name p))"
    if "\<forall>g \<in> set fs. Name g = Name p \<longrightarrow> g = p" for fs out'
    using that
  proof (induction fs arbitrary: out')
    case Nil
    show ?case by simp
  next
    case (Cons g rest)
    then have rest: "\<forall>g \<in> set rest. Name g = Name p \<longrightarrow> g = p"
      by simp
    show ?case
    proof (cases "g = p")
      case True
      then show ?thesis
        using assms(3)
        by (subst second_pass.simps, subst Cons.IH [OF rest])
           (simp add: is_primary_def split: sum.splits)
    next
      case False
      then have "Name g \<noteq> Name p"
        using Cons.prems by auto
      then show ?thesis
        using False
        by (subst second_pass.simps, subst Cons.IH [OF rest])
           (simp split: sum.splits)
    qed
  qed
  show ?thesis
    using general [OF assms(1), of out] assms(2,4)
    by (simp split: sum.splits)
qed

text \<open>
  Claim C1 (partial override), as amended.  Let the plugin decode its input, let a
  partial \<open>b\<close> of the source files define the fragment \<open>X\<close> with a body that is not empty,
  and let no partial after \<open>b\<close> in the sequence define \<open>X\<close> with a body that is not empty
  (whatever the partials before \<open>b\<close> define).  Then the master template binds \<open>X\<close> to the
  body from \<open>b\<close>, and so does the name space in which a file \<open>p\<close> that does not define \<open>X\<close>
  itself is executed.  Whenever \<open>p\<close> invokes the fragment with \<open>{{template "X" .}}\<close>,
  with any content \<open>front\<close> before the action and any content \<open>rear\<close> after it, the
  rendering of \<open>p\<close> is the rendering of \<open>front\<close>, then the rendering of the body from \<open>b\<close>
  (one level deeper), then the rendering of \<open>rear\<close>, and an error of one of the three is
  the error of \<open>p\<close>.  That is also what the plugin answers: if \<open>p\<close> is a primary file of
  the input and no other source file has its name, the entry of \<open>p\<close> in the rendered
  files of the output of \<open>HelmPluginMain\<close> is this rendering, and there is no entry when
  the rendering fails or is white space only.
\<close>

theorem later_partial_wins:
  fixes parse :: parser and input :: gotemplate_input and tp p master ns dot
  defines "master \<equiv> master_of parse (SourceFiles input)"
    and "ns \<equiv> AddParseTrees (master_of parse (SourceFiles input)) tp"
    and "dot \<equiv> template_data input p"
  assumes dec: "json_Unmarshal inputBytes = Inr input"
    and files: "SourceFiles input = pre @ [b] @ post"
    and b: "is_partial b" "parse (Name b) (Data b) = Inr tb" "tb X = Some body"
      "\<not> IsEmptyTree body"
    and post: "\<forall>g \<in> set post. is_partial g \<longrightarrow>
           (\<forall>tg t. parse (Name g) (Data g) = Inr tg \<longrightarrow> tg X = Some t \<longrightarrow> IsEmptyTree t)"
    and p: "parse (Name p) (Data p) = Inr tp" "tp X = None"
  shows "master X = Some body \<and>
         ns X = Some body \<and>
         (\<forall>front rear.
            tp (Name p) = Some (front @ [TemplateNode X] @ rear) \<longrightarrow>
            (let result =
               (case exec maxExecDepth ns dot front of
                  Inl err \<Rightarrow> Inl err
                | Inr before \<Rightarrow>
                    (case exec (maxExecDepth - 1) ns dot body of
                       Inl err \<Rightarrow> Inl err
                     | Inr inner \<Rightarrow>
                         (case exec maxExecDepth ns dot rear of
                            Inl err \<Rightarrow> Inl err
                          | Inr after \<Rightarrow> Inr (before @ inner @ after))))
             in render_file parse master input p =
                  (case result of
                     Inl err \<Rightarrow> Inl (''render error in '' @ Name p @ '': '' @ err)
                   | Inr rendered \<Rightarrow> Inr rendered) \<and>
                (p \<in> set (SourceFiles input) \<and> is_primary p \<and>
                 (\<forall>g \<in> set (SourceFiles input). Name g = Name p \<longrightarrow> g = p) \<longrightarrow>
                 renderedFiles (snd (HelmPluginMain parse json_Unmarshal inputBytes)) (Name p) =
                   (case result of
                      Inl err \<Rightarrow> None
                    | Inr rendered \<Rightarrow>
                        if strings_TrimSpace rendered = [] then None else Some rendered))))"
proof -
  obtain m1 o1 where pre: "first_pass parse pre (Map.empty, new_output) = (m1, o1)"
    by (cases "first_pass parse pre (Map.empty, new_output)")
  obtain m2 o2 where mid: "first_pass parse [b] (m1, o1) = (m2, o2)"
    by (cases "first_pass parse [b] (m1, o1)")
  have "m2 X = Some body"
    using first_pass_defines [of b parse tb X body m1 o1] b mid by simp
  moreover have "first_pass parse (pre @ [b] @ post) (Map.empty, new_output) =
      first_pass parse post (m2, o2)"
    by (simp only: first_pass_append pre mid)
  ultimately have master: "master X = Some body"
    using first_pass_keeps_definition [of m2 X body post parse o2] post
    by (simp add: master_def master_of_def files)
  have ns: "ns X = Some body"
    using master p(2) by (simp add: ns_def master_def AddParseTrees_def)
  have around: "render_file parse master input p =
         (case result of
            Inl err \<Rightarrow> Inl (''render error in '' @ Name p @ '': '' @ err)
          | Inr rendered \<Rightarrow> Inr rendered) \<and>
       (p \<in> set (SourceFiles input) \<and> is_primary p \<and>
        (\<forall>g \<in> set (SourceFiles input). Name g = Name p \<longrightarrow> g = p) \<longrightarrow>
        renderedFiles (snd (HelmPluginMain parse json_Unmarshal inputBytes)) (Name p) =
          (case result of
             Inl err \<Rightarrow> None
           | Inr rendered \<Rightarrow> if strings_TrimSpace rendered = [] then None else Some rendered))"
    if root: "tp (Name p) = Some (front @ [TemplateNode X] @ rear)"
      and result: "result =
        (case exec maxExecDepth ns dot front of
           Inl err \<Rightarrow> Inl err
         | Inr before \<Rightarrow>
             (case exec (maxExecDepth - 1) ns dot body of
                Inl err \<Rightarrow> Inl err
              | Inr inner \<Rightarrow>
                  (case exec maxExecDepth ns dot rear of
                     Inl err \<Rightarrow> Inl err
                   | Inr after \<Rightarrow> Inr (before @ inner @ after))))"
    for front rear result
  proof -
    have call: "exec maxExecDepth ns dot [TemplateNode X] = exec (maxExecDepth - 1) ns dot body"
      using ns by (simp add: maxExecDepth_def split: sum.splits)
    have run: "exec maxExecDepth ns dot (front @ [TemplateNode X] @ rear) = result"
      unfolding result exec_append call by (simp split: sum.splits)
    have rf: "render_file parse master input p =
         (case result of
            Inl err \<Rightarrow> Inl (''render error in '' @ Name p @ '': '' @ err)
          | Inr rendered \<Rightarrow> Inr rendered)"
      using p(1) root run
      by (simp add: render_file_def Clone_def New_Parse_def Execute_def Let_def ns_def master_def
          dot_def)
    have out: "renderedFiles (snd (HelmPluginMain parse json_Unmarshal inputBytes)) (Name p) =
          (case result of
             Inl err \<Rightarrow> None
           | Inr rendered \<Rightarrow> if strings_TrimSpace rendered = [] then None else Some rendered)"
      if here: "p \<in> set (SourceFiles input)" and prim: "is_primary p"
        and only: "\<forall>g \<in> set (SourceFiles input). Name g = Name p \<longrightarrow> g = p"
    proof -
      obtain m out where fp: "first_pass parse (SourceFiles input) (Map.empty, new_output) = (m, out)"
        by (cases "first_pass parse (SourceFiles input) (Map.empty, new_output)")
      have m: "master = m"
        by (simp add: master_def master_of_def fp)
      have "RenderedFiles out = Map.empty"
        using first_pass_fields [of parse "SourceFiles input" Map.empty new_output] fp
        by (simp add: new_output_def)
      then have "RenderedFiles (second_pass parse m input (SourceFiles input) out) (Name p) =
          (case render_file parse m input p of
             Inl msg \<Rightarrow> None
           | Inr rendered \<Rightarrow> if strings_TrimSpace rendered = [] then None else Some rendered)"
        using second_pass_lookup [OF only here prim, of out parse m input] by simp
      then show ?thesis
        using rf by (simp add: HelmPluginMain_def dec fp json_Marshal_def m split: sum.splits)
    qed
    from rf out show ?thesis
      by blast
  qed
  from master ns around show ?thesis
    by (simp add: Let_def)
qed

theorem later_partial_wins_witness:
  \<open>Data partial_a = ''{{define "X"}}A{{end}}'' \<and>
   Data partial_b = ''{{define "X"}}B{{end}}'' \<and>
   Data primary_around = ''data: {{template "X" .}}\<newline>'' \<and>
   master_of parse_examples [partial_a, partial_b, primary_around] ''X'' = Some [TextNode ''B''] \<and>
   render_file parse_examples (master_of parse_examples [partial_a, partial_b, primary_around])
     (example_input [partial_a, partial_b, primary_around]) primary_around = Inr ''data: B\<newline>'' \<and>
   renderedFiles
     (snd (HelmPluginMain parse_examples decode_examples
        (envelope [partial_a, partial_b, primary_around])))
     ''templates/w.yaml'' = Some ''data: B\<newline>''\<close>
proof -
  let ?files = "[partial_a, partial_b, primary_around]"
  let ?tb = "[Name partial_b \<mapsto> [], ''X'' \<mapsto> [TextNode ''B'']]"
  let ?tp = "[Name primary_around \<mapsto>
                [TextNode ''data: '', TemplateNode ''X'', TextNode ''\<newline>'']]"
  have dec: "decode_examples (envelope ?files) = Inr (example_input ?files)"
    by (simp add: decode_example example_files)
  have files: "SourceFiles (example_input ?files) = [partial_a] @ [partial_b] @ [primary_around]"
    by (simp add: example_input_def)
  have b: "is_partial partial_b" "parse_examples (Name partial_b) (Data partial_b) = Inr ?tb"
    "?tb ''X'' = Some [TextNode ''B'']" "\<not> IsEmptyTree [TextNode ''B'']"
    by (simp_all add: run_example example_files)
  have post: "\<forall>g \<in> set [primary_around]. is_partial g \<longrightarrow>
      (\<forall>tg t. parse_examples (Name g) (Data g) = Inr tg \<longrightarrow> tg ''X'' = Some t \<longrightarrow>
         IsEmptyTree t)"
    by (simp add: run_example example_files)
  have p: "parse_examples (Name primary_around) (Data primary_around) = Inr ?tp"
    "?tp ''X'' = None"
    "?tp (Name primary_around) =
       Some ([TextNode ''data: ''] @ [TemplateNode ''X''] @ [TextNode ''\<newline>''])"
    by (simp_all add: run_example example_files)
  have here: "primary_around \<in> set (SourceFiles (example_input ?files))"
    "is_primary primary_around"
    "\<forall>g \<in> set (SourceFiles (example_input ?files)).
       Name g = Name primary_around \<longrightarrow> g = primary_around"
    by (simp_all add: run_example example_files)
  have name: "Name primary_around = ''templates/w.yaml''"
    by (simp add: example_files)
  note inst = later_partial_wins [of decode_examples "envelope ?files" "example_input ?files"
      "[partial_a]" partial_b "[primary_around]" parse_examples ?tb "''X''" "[TextNode ''B'']"
      primary_around ?tp, OF dec files b post p(1,2)]
  have sf: "SourceFiles (example_input ?files) = ?files"
    by (simp add: example_input_def)
  from inst have master: "master_of parse_examples ?files ''X'' = Some [TextNode ''B'']"
    by (simp add: sf)
  note around = inst [THEN conjunct2, THEN conjunct2, THEN spec, THEN spec, THEN mp, OF p(3)]
  from around here
  have "render_file parse_examples (master_of parse_examples ?files) (example_input ?files)
          primary_around = Inr ''data: B\<newline>'' \<and>
        renderedFiles (snd (HelmPluginMain parse_examples decode_examples (envelope ?files)))
          (Name primary_around) = Some ''data: B\<newline>''"
    by (simp add: Let_def sf strings_TrimSpace_def asciiSpace_def space2_def space3_def byte_def)
  with master show ?thesis
    by (simp add: name) (simp add: example_files)
qed

text \<open>
  The claim as the spec words it fails when the later partial defines the fragment with
  an empty body: the engine does not let an empty definition replace one that exists,
  so the primary file renders the body from the earlier partial.
\<close>

theorem later_empty_partial_counterexample:
  \<open>Data partial_a = ''{{define "X"}}A{{end}}'' \<and>
   Data partial_b_empty = ''{{define "X"}}{{end}}'' \<and>
   Data primary_p = ''{{template "X" .}}'' \<and>
   HelmPluginMain parse_examples decode_examples
       (envelope [partial_a, partial_b_empty, primary_p]) =
     (0, \<lparr>renderedFiles = [''templates/p.yaml'' \<mapsto> ''A''],
          modifiedSourceFiles = None, errors = None\<rparr>)\<close>
  by (simp add: run_example example_files decode_example)

end
